theory Spec2Isabelle
  imports Complex_Main
begin

section \<open>Numbers, vectors and errors\<close>

text \<open>
  The options of \<^verbatim>\<open>sat_sim\<close> are C++ \<^verbatim>\<open>double\<close>s, and the validation code only
  asks three things of them: whether a value is NaN (\<^verbatim>\<open>std::isnan\<close>), how two
  values compare (\<^verbatim>\<open><\<close>, \<^verbatim>\<open><=\<close>, \<^verbatim>\<open>==\<close>, \<^verbatim>\<open>!=\<close>), and the norm of a 2-vector.
  A double is therefore modelled by the value it denotes: NaN, one of the two
  infinities, or a real number. Every finite double denotes a real, so a
  statement proved for all values of this type holds for all doubles. The two
  zeros of IEEE 754 compare equal and are both \<open>Fin 0\<close>.
\<close>

datatype double = NaN | NegInf | Fin real | PosInf

definition isnan :: "double \<Rightarrow> bool" where
  "isnan d = (d = NaN)"

text \<open>IEEE comparisons: every ordered comparison with a NaN operand is false.\<close>

fun d_lt :: "double \<Rightarrow> double \<Rightarrow> bool" where
  "d_lt NaN _ = False"
| "d_lt _ NaN = False"
| "d_lt PosInf _ = False"
| "d_lt _ NegInf = False"
| "d_lt NegInf _ = True"
| "d_lt (Fin a) (Fin b) = (a < b)"
| "d_lt (Fin a) PosInf = True"

fun d_eq :: "double \<Rightarrow> double \<Rightarrow> bool" where
  "d_eq NaN _ = False"
| "d_eq _ NaN = False"
| "d_eq a b = (a = b)"

definition d_le :: "double \<Rightarrow> double \<Rightarrow> bool" where
  "d_le a b = (d_lt a b \<or> d_eq a b)"

text \<open>The C++ operator \<^verbatim>\<open>!=\<close> is the negation of \<^verbatim>\<open>==\<close>, so it holds of a NaN.\<close>

definition d_ne :: "double \<Rightarrow> double \<Rightarrow> bool" where
  "d_ne a b = (\<not> d_eq a b)"

text \<open>
  Multiplication, addition and square root, as far as \<^verbatim>\<open>norm_2\<close> needs them.
  A finite result is the exact real: rounding, and overflow of a finite
  product to an infinity, are left out.
\<close>

fun d_mul :: "double \<Rightarrow> double \<Rightarrow> double" where
  "d_mul NaN _ = NaN"
| "d_mul _ NaN = NaN"
| "d_mul (Fin a) (Fin b) = Fin (a * b)"
| "d_mul (Fin a) PosInf = (if a = 0 then NaN else if 0 < a then PosInf else NegInf)"
| "d_mul (Fin a) NegInf = (if a = 0 then NaN else if 0 < a then NegInf else PosInf)"
| "d_mul PosInf (Fin b) = (if b = 0 then NaN else if 0 < b then PosInf else NegInf)"
| "d_mul NegInf (Fin b) = (if b = 0 then NaN else if 0 < b then NegInf else PosInf)"
| "d_mul PosInf PosInf = PosInf"
| "d_mul NegInf NegInf = PosInf"
| "d_mul PosInf NegInf = NegInf"
| "d_mul NegInf PosInf = NegInf"

fun d_add :: "double \<Rightarrow> double \<Rightarrow> double" where
  "d_add NaN _ = NaN"
| "d_add _ NaN = NaN"
| "d_add (Fin a) (Fin b) = Fin (a + b)"
| "d_add PosInf NegInf = NaN"
| "d_add NegInf PosInf = NaN"
| "d_add PosInf _ = PosInf"
| "d_add _ PosInf = PosInf"
| "d_add NegInf _ = NegInf"
| "d_add _ NegInf = NegInf"

fun d_sqrt :: "double \<Rightarrow> double" where
  "d_sqrt NaN = NaN"
| "d_sqrt NegInf = NaN"
| "d_sqrt PosInf = PosInf"
| "d_sqrt (Fin a) = (if a < 0 then NaN else Fin (sqrt a))"

text \<open>
  \<^verbatim>\<open>vw::Vector2\<close>, \<^verbatim>\<open>vw::Vector3\<close> and \<^verbatim>\<open>vw::Quaternion<double>\<close> are fixed-size
  tuples of doubles. \<open>idx2 v i\<close> and \<open>idx3 v i\<close> are \<^verbatim>\<open>v[i]\<close>; the source only
  indexes with the literals 0, 1 and 2.
\<close>

type_synonym Vector2 = "double \<times> double"
type_synonym Vector3 = "double \<times> double \<times> double"
type_synonym Quaternion = "double \<times> double \<times> double \<times> double"

fun idx2 :: "Vector2 \<Rightarrow> nat \<Rightarrow> double" where
  "idx2 (x, y) i = (if i = 0 then x else y)"

fun idx3 :: "Vector3 \<Rightarrow> nat \<Rightarrow> double" where
  "idx3 (x, y, z) i = (if i = 0 then x else if i = 1 then y else z)"

text \<open>The default constructor \<^verbatim>\<open>vw::Vector3()\<close> fills the vector with zeros.\<close>

definition Vector3_zero :: Vector3 where
  "Vector3_zero = (Fin 0, Fin 0, Fin 0)"

text \<open>\<^verbatim>\<open>operator==\<close> on vectors compares element by element.\<close>

fun vec3_eq :: "Vector3 \<Rightarrow> Vector3 \<Rightarrow> bool" where
  "vec3_eq (a, b, c) (a', b', c') = (d_eq a a' \<and> d_eq b b' \<and> d_eq c c')"

text \<open>\<^verbatim>\<open>norm_2\<close> is the Euclidean norm: the square root of the sum of squares.\<close>

fun norm_2 :: "Vector2 \<Rightarrow> double" where
  "norm_2 (x, y) = d_sqrt (d_add (d_mul x x) (d_mul y y))"

text \<open>
  The two exception classes thrown in the sources, each with its message.
  \<open>nl\<close> is the newline that ends the messages of \<^verbatim>\<open>sat_sim\<close>.
\<close>

datatype error = ArgumentErr string | NoImplErr string

definition nl :: string where
  "nl = [CHR 0x0A]"

section \<open>The CSM camera model wrapper (CsmModel.h)\<close>

definition DEFAULT_CSM_DESIRED_PRECISISON :: double where
  "DEFAULT_CSM_DESIRED_PRECISISON = Fin (1 / 100000000)"

text \<open>
  The data members of \<^verbatim>\<open>class CsmModel\<close>. The shared pointer \<open>m_gm_model\<close> to the
  vendor's sensor model is a handle, \<open>None\<close> when no model is loaded.
\<close>

record CsmModel =
  m_gm_model :: "nat option"
  m_desired_precision :: double
  m_semi_major_axis :: double
  m_semi_minor_axis :: double
  m_sun_position :: Vector3

text \<open>
  \<^verbatim>\<open>camera_pose\<close> throws before its \<^verbatim>\<open>return\<close> statement is reached, whatever the
  model and the pixel.
\<close>

definition camera_pose :: "CsmModel \<Rightarrow> Vector2 \<Rightarrow> error + Quaternion" where
  "camera_pose m pix = Inl (NoImplErr ''CsmModel: Cannot retrieve camera_pose!'')"

definition setDesiredPrecision :: "double \<Rightarrow> CsmModel \<Rightarrow> CsmModel" where
  "setDesiredPrecision desired_precision m = m\<lparr>m_desired_precision := desired_precision\<rparr>"

definition sun_position :: "CsmModel \<Rightarrow> Vector3" where
  "sun_position m = m_sun_position m"

text \<open>
  Modelled from the spec: the constructors of \<^verbatim>\<open>CsmModel\<close> are only declared in
  CsmModel.h; their bodies (CsmModel.cc) are not among the sources. The spec
  gives the wrapped model a desired numerical precision with "default 1e-8",
  which is the constant above; the other members of a new model are left as
  parameters.
\<close>

definition CsmModel_new :: "nat option \<Rightarrow> double \<Rightarrow> double \<Rightarrow> Vector3 \<Rightarrow> CsmModel" where
  "CsmModel_new gm a b sun =
     \<lparr>m_gm_model = gm, m_desired_precision = DEFAULT_CSM_DESIRED_PRECISISON,
      m_semi_major_axis = a, m_semi_minor_axis = b, m_sun_position = sun\<rparr>"

section \<open>Effects of the tool: a trace of events and an outcome\<close>

text \<open>
  What \<^verbatim>\<open>sat_sim\<close> does besides computing is recorded as a list of events, in
  the order in which they happen: a warning printed through \<^verbatim>\<open>vw_out\<close>, the
  creation of the output directory, and each call of \<^verbatim>\<open>main\<close> into the
  simulator library. A run is the events so far, and either the exception that
  ended it or its value.
\<close>

datatype event =
    Warning string
  | CreateOutDir string
  | ReadGeorefImage string
  | ReadCameras
  | CalcTrajectory
  | GenCameras
  | GenImages

type_synonym 'a run = "event list \<times> (error + 'a)"

definition ret :: "'a \<Rightarrow> 'a run" where
  "ret x = ([], Inr x)"

definition vw_throw :: "error \<Rightarrow> 'a run" where
  "vw_throw e = ([], Inl e)"

definition emit :: "event \<Rightarrow> unit run" where
  "emit ev = ([ev], Inr ())"

text \<open>A call into the library: the call is recorded, its result is the library's.\<close>

definition call :: "event \<Rightarrow> error + 'a \<Rightarrow> 'a run" where
  "call ev r = ([ev], r)"

text \<open>Sequencing: an exception ends the run, with the events up to it.\<close>

definition bind_run :: "'a run \<Rightarrow> ('a \<Rightarrow> 'b run) \<Rightarrow> 'b run" where
  "bind_run m f =
     (case m of
        (t, Inl e) \<Rightarrow> (t, Inl e)
      | (t, Inr x) \<Rightarrow> (case f x of (t', r) \<Rightarrow> (t @ t', r)))"

text \<open>An \<^verbatim>\<open>if\<close> statement without \<^verbatim>\<open>else\<close>, and a block of statements.\<close>

definition run_if :: "bool \<Rightarrow> unit run \<Rightarrow> unit run" where
  "run_if c m = (if c then m else ret ())"

fun seq_run :: "unit run list \<Rightarrow> unit run" where
  "seq_run [] = ret ()"
| "seq_run (m # ms) = bind_run m (\<lambda>_. seq_run ms)"

section \<open>Command-line validation (sat_sim.cc)\<close>

text \<open>
  The fields of \<^verbatim>\<open>asp::SatSimOptions\<close> that \<^verbatim>\<open>handle_arguments\<close> binds to
  command-line options. The structure is declared in asp/Core/SatSim.h, which
  is not among the sources; the types are those of the default values and of the
  tests applied to the fields. \<open>first_opt\<close> and \<open>last_opt\<close> are \<^verbatim>\<open>opt.first\<close>
  and \<^verbatim>\<open>opt.last\<close>.
\<close>

record SatSimOptions =
  dem_file :: string
  ortho_file :: string
  out_prefix :: string
  camera_list :: string
  first_opt :: Vector3
  last_opt :: Vector3
  num_cameras :: int
  first_ground_pos :: Vector2
  last_ground_pos :: Vector2
  focal_length :: double
  optical_center :: Vector2
  image_size :: Vector2
  roll :: double
  pitch :: double
  yaw :: double
  velocity :: double
  horizontal_uncertainty :: Vector3
  jitter_frequency :: double
  no_images :: bool
  dem_height_error_tol :: double

text \<open>
  The options when the command line gives none of them: the \<^verbatim>\<open>default_value\<close>
  of each option (lines 35 to 94); \<^verbatim>\<open>output-prefix\<close> has none and stays the
  empty string.
\<close>

definition default_options :: SatSimOptions where
  "default_options =
     \<lparr>dem_file = '''', ortho_file = '''', out_prefix = '''', camera_list = '''',
      first_opt = Vector3_zero, last_opt = Vector3_zero, num_cameras = 0,
      first_ground_pos = (NaN, NaN), last_ground_pos = (NaN, NaN),
      focal_length = NaN, optical_center = (NaN, NaN), image_size = (NaN, NaN),
      roll = NaN, pitch = NaN, yaw = NaN, velocity = NaN,
      horizontal_uncertainty = (NaN, NaN, NaN), jitter_frequency = NaN,
      no_images = False, dem_height_error_tol = Fin (1 / 1000)\<rparr>"

text \<open>
  The two local counters named \<^verbatim>\<open>ans\<close>: \<open>ans_rpy\<close> (lines 147 to 149) counts
  the angles among roll, pitch and yaw that are NaN, \<open>ans\<close> (lines 155 to 159)
  counts the jitter parameters that are not NaN.
\<close>

definition ans_rpy :: "SatSimOptions \<Rightarrow> int" where
  "ans_rpy opt =
     of_bool (isnan (roll opt)) + of_bool (isnan (pitch opt)) + of_bool (isnan (yaw opt))"

definition ans :: "SatSimOptions \<Rightarrow> int" where
  "ans opt =
     of_bool (\<not> isnan (jitter_frequency opt)) +
     of_bool (\<not> isnan (velocity opt)) +
     of_bool (\<not> isnan (idx3 (horizontal_uncertainty opt) 0)) +
     of_bool (\<not> isnan (idx3 (horizontal_uncertainty opt) 1)) +
     of_bool (\<not> isnan (idx3 (horizontal_uncertainty opt) 2))"

definition have_roll_pitch_yaw :: "SatSimOptions \<Rightarrow> bool" where
  "have_roll_pitch_yaw opt =
     (\<not> isnan (roll opt) \<and> \<not> isnan (pitch opt) \<and> \<not> isnan (yaw opt))"

text \<open>
  The statements of \<^verbatim>\<open>handle_arguments\<close> about the jitter parameters, one
  definition for each \<^verbatim>\<open>if\<close>: lines 160 to 162, 166 to 167, 169 to 171, 173 to 174,
  176 to 178 and 180 to 181.
\<close>

definition jitter_all_or_none_check :: "SatSimOptions \<Rightarrow> unit run" where
  "jitter_all_or_none_check opt =
     run_if (ans opt \<noteq> 0 \<and> ans opt \<noteq> 5)
       (vw_throw (ArgumentErr (''Either all of jitter-frequency, velocity, and '' @
          ''horizontal uncertainty must be specified, or none.'' @ nl)))"

definition jitter_roll_pitch_yaw_check :: "SatSimOptions \<Rightarrow> unit run" where
  "jitter_roll_pitch_yaw_check opt =
     run_if (ans opt \<noteq> 0 \<and> \<not> have_roll_pitch_yaw opt)
       (vw_throw (ArgumentErr
          (''Modelling jitter requires specifying --roll, --pitch, and --yaw.'' @ nl)))"

definition camera_list_jitter_check :: "SatSimOptions \<Rightarrow> unit run" where
  "camera_list_jitter_check opt =
     run_if (camera_list opt \<noteq> '''' \<and> ans opt \<noteq> 0)
       (vw_throw (ArgumentErr (''The --camera-list, --jitter-frequency, '' @
          ''--velocity, and --horizontal-uncertainty options cannot be used together.'' @ nl)))"

definition velocity_check :: "SatSimOptions \<Rightarrow> unit run" where
  "velocity_check opt =
     run_if (d_le (velocity opt) (Fin 0))
       (vw_throw (ArgumentErr (''The satellite velocity must be positive.'' @ nl)))"

definition horizontal_uncertainty_check :: "SatSimOptions \<Rightarrow> unit run" where
  "horizontal_uncertainty_check opt =
     run_if (d_lt (idx3 (horizontal_uncertainty opt) 0) (Fin 0) \<or>
             d_lt (idx3 (horizontal_uncertainty opt) 1) (Fin 0) \<or>
             d_lt (idx3 (horizontal_uncertainty opt) 2) (Fin 0))
       (vw_throw (ArgumentErr (''The horizontal uncertainty must be non-negative.'' @ nl)))"

definition jitter_frequency_check :: "SatSimOptions \<Rightarrow> unit run" where
  "jitter_frequency_check opt =
     run_if (d_le (jitter_frequency opt) (Fin 0))
       (vw_throw (ArgumentErr (''The jitter frequency must be positive.'' @ nl)))"

text \<open>
  \<^verbatim>\<open>handle_arguments\<close> from line 110 on, applied to the options as
  \<^verbatim>\<open>asp::check_command_line\<close> has filled them in (that parser is in
  asp/Core/Common.h, outside the sources). Each element of the list is one
  statement of the function, in the order of the source.
\<close>

definition handle_arguments :: "SatSimOptions \<Rightarrow> unit run" where
  "handle_arguments opt = seq_run
     [run_if (dem_file opt = '''' \<or> ortho_file opt = '''')
        (vw_throw (ArgumentErr (''Missing input DEM and/or ortho image.'' @ nl))),
      run_if (out_prefix opt = '''')
        (vw_throw (ArgumentErr (''Missing output prefix.'' @ nl))),
      run_if (isnan (idx2 (image_size opt) 0) \<or> isnan (idx2 (image_size opt) 1))
        (vw_throw (ArgumentErr (''The image size must be specified.'' @ nl))),
      run_if (camera_list opt \<noteq> '''' \<and> no_images opt)
        (vw_throw (ArgumentErr (''The --camera-list and --no-images options '' @
           ''cannot be used together.'' @ nl))),
      run_if (camera_list opt = '''') (seq_run
        [run_if (vec3_eq (first_opt opt) Vector3_zero \<or> vec3_eq (last_opt opt) Vector3_zero)
           (vw_throw (ArgumentErr (''The first and last camera positions must be '' @
              ''specified.'' @ nl))),
         run_if (d_ne (idx3 (first_opt opt) 2) (idx3 (last_opt opt) 2))
           (emit (Warning (''Warning: The first and last camera positions have different '' @
              ''heights above the datum. This is supported but is not usual. '' @
              ''Check your inputs.'' @ nl))),
         run_if (num_cameras opt < 2)
           (vw_throw (ArgumentErr (''The number of cameras must be at least 2.'' @ nl))),
         run_if (isnan (focal_length opt))
           (vw_throw (ArgumentErr (''The focal length must be positive.'' @ nl))),
         run_if (isnan (idx2 (optical_center opt) 0) \<or> isnan (idx2 (optical_center opt) 1))
           (vw_throw (ArgumentErr (''The optical center must be specified.'' @ nl))),
         run_if (isnan (norm_2 (first_ground_pos opt)) \<noteq> isnan (norm_2 (last_ground_pos opt)))
           (vw_throw (ArgumentErr (''Either both first and last ground positions '' @
              ''must be specified, or none.'' @ nl))),
         run_if (ans_rpy opt \<noteq> 0 \<and> ans_rpy opt \<noteq> 3)
           (vw_throw (ArgumentErr (''Either all of roll, pitch, and yaw must be '' @
              ''specified, or none.'' @ nl)))]),
      jitter_all_or_none_check opt,
      jitter_roll_pitch_yaw_check opt,
      camera_list_jitter_check opt,
      velocity_check opt,
      horizontal_uncertainty_check opt,
      jitter_frequency_check opt,
      emit (CreateOutDir (out_prefix opt))]"

section \<open>The driver (sat_sim.cc, main)\<close>

text \<open>
  The functions of the simulator library that \<^verbatim>\<open>main\<close> calls are declared in
  asp/Core/SatSim.h and are parameters here: each takes what \<^verbatim>\<open>main\<close> passes
  to it and returns its outputs or throws. \<open>'g\<close> is a georeferenced image with
  its no-data value, \<open>'c\<close> the camera names with the cameras, \<open>'t\<close> a
  trajectory with its camera-to-world rotations.
\<close>

record ('g, 'c, 't) SatSim =
  readGeorefImage :: "string \<Rightarrow> error + 'g"
  readCameras :: "SatSimOptions \<Rightarrow> error + 'c"
  calcTrajectory :: "SatSimOptions \<Rightarrow> 'g \<Rightarrow> error + 't"
  genCameras :: "SatSimOptions \<Rightarrow> 't \<Rightarrow> error + 'c"
  genImages :: "SatSimOptions \<Rightarrow> bool \<Rightarrow> 'c \<Rightarrow> 'g \<Rightarrow> 'g \<Rightarrow> error + unit"

text \<open>
  The \<^verbatim>\<open>try\<close> block of \<^verbatim>\<open>main\<close> followed by \<^verbatim>\<open>return 0\<close>. An exception
  leaves the block for the handlers of the macro \<^verbatim>\<open>ASP_STANDARD_CATCHES\<close>
  (asp/Core/Macros.h, outside the sources): the outcome \<open>Inl e\<close> is the exception
  handed to them.
\<close>

definition main :: "('g, 'c, 't) SatSim \<Rightarrow> SatSimOptions \<Rightarrow> int run" where
  "main lib opt =
     bind_run (handle_arguments opt) (\<lambda>_.
     bind_run (call (ReadGeorefImage (dem_file opt)) (readGeorefImage lib (dem_file opt))) (\<lambda>dem.
     bind_run (call (ReadGeorefImage (ortho_file opt)) (readGeorefImage lib (ortho_file opt))) (\<lambda>ortho.
     bind_run
       (if camera_list opt \<noteq> ''''
        then bind_run (call ReadCameras (readCameras lib opt)) (\<lambda>cams. ret (True, cams))
        else bind_run (call CalcTrajectory (calcTrajectory lib opt dem)) (\<lambda>trajectory.
             bind_run (call GenCameras (genCameras lib opt trajectory)) (\<lambda>cams.
             ret (False, cams))))
       (\<lambda>(external_cameras, cams).
     bind_run
       (run_if (\<not> no_images opt)
          (call GenImages (genImages lib opt external_cameras cams dem ortho)))
       (\<lambda>_. ret 0)))))"

section \<open>Concrete command lines\<close>

text \<open>
  Inputs on which the model is evaluated. \<open>example_options\<close> is a small
  complete command line: two cameras at height 500 over DEM pixels (0, 0) and
  (100, 0), focal length 1000, optical center (50, 50) and image size
  (100, 100), with names for the files. \<open>jitter_options\<close> adds the five
  jitter parameters. \<open>example_lib\<close> is a library in which every call succeeds.
\<close>

definition example_options :: SatSimOptions where
  "example_options = default_options
     \<lparr>dem_file := ''dem.tif'', ortho_file := ''ortho.tif'', out_prefix := ''run/out'',
      first_opt := (Fin 0, Fin 0, Fin 500), last_opt := (Fin 100, Fin 0, Fin 500),
      num_cameras := 2, focal_length := Fin 1000, optical_center := (Fin 50, Fin 50),
      image_size := (Fin 100, Fin 100)\<rparr>"

definition jitter_options :: SatSimOptions where
  "jitter_options = example_options
     \<lparr>jitter_frequency := Fin 5, velocity := Fin 7500,
      horizontal_uncertainty := (Fin 0, Fin 2, Fin 0)\<rparr>"

definition example_lib :: "(string, string list, nat) SatSim" where
  "example_lib =
     \<lparr>readGeorefImage = (\<lambda>file. Inr file),
      readCameras = (\<lambda>opt. Inr [camera_list opt]),
      calcTrajectory = (\<lambda>opt dem. Inr (nat (num_cameras opt))),
      genCameras = (\<lambda>opt trajectory. Inr (replicate trajectory (out_prefix opt))),
      genImages = (\<lambda>opt external_cameras cams dem ortho. Inr ())\<rparr>"

section \<open>Predicates for the statements\<close>

text \<open>A run that ends normally or with an \<open>ArgumentErr\<close>, used below to say that
  validation throws nothing else.\<close>

definition only_ArgumentErr :: "'a run \<Rightarrow> bool" where
  "only_ArgumentErr m = (case snd m of Inl (NoImplErr _) \<Rightarrow> False | _ \<Rightarrow> True)"

section \<open>Properties\<close>

subsection \<open>Runs\<close>

lemma snd_ret [simp]: "snd (ret x) = Inr x" and fst_ret [simp]: "fst (ret x) = []"
  by (simp_all add: ret_def)

lemma snd_vw_throw [simp]: "snd (vw_throw e) = Inl e" and fst_vw_throw [simp]: "fst (vw_throw e) = []"
  by (simp_all add: vw_throw_def)

lemma snd_emit [simp]: "snd (emit ev) = Inr ()" and fst_emit [simp]: "fst (emit ev) = [ev]"
  by (simp_all add: emit_def)

lemma snd_bind_run:
  "snd (bind_run m f) = (case snd m of Inl e \<Rightarrow> Inl e | Inr x \<Rightarrow> snd (f x))"
  by (simp add: bind_run_def split: prod.splits sum.splits)

lemma fst_bind_run:
  "fst (bind_run m f) = (case snd m of Inl e \<Rightarrow> fst m | Inr x \<Rightarrow> fst m @ fst (f x))"
  by (simp add: bind_run_def split: prod.splits sum.splits)

text \<open>Nothing runs after an exception.\<close>

lemma bind_run_failed: "snd m = Inl e \<Longrightarrow> bind_run m f = (fst m, Inl e)"
  by (cases m) (simp add: bind_run_def)

lemma snd_run_if: "snd (run_if c m) = (if c then snd m else Inr ())"
  and fst_run_if: "fst (run_if c m) = (if c then fst m else [])"
  by (simp_all add: run_if_def)

text \<open>A block ends normally exactly when each of its statements does.\<close>

lemma seq_run_ok_iff: "snd (seq_run ms) = Inr () \<longleftrightarrow> (\<forall>m \<in> set ms. snd m = Inr ())"
  by (induction ms) (auto simp: snd_bind_run split: sum.splits)

text \<open>The outcome of a block, statement by statement.\<close>

lemma snd_seq_run_Cons:
  "snd (seq_run (m # ms)) = (case snd m of Inl e \<Rightarrow> Inl e | Inr u \<Rightarrow> snd (seq_run ms))"
  by (simp add: snd_bind_run)

text \<open>A block that starts with a conditional throw.\<close>

lemma seq_run_thrown: "seq_run (([], Inl e) # ms) = ([], Inl e)"
  by (simp add: bind_run_def)

lemma seq_run_throw_if:
  "seq_run (run_if c (vw_throw e) # ms) = (if c then vw_throw e else seq_run ms)"
  by (cases "seq_run ms") (simp add: run_if_def bind_run_def vw_throw_def ret_def)

text \<open>When a block throws and its last statement cannot, the last statement was
  not reached.\<close>

lemma seq_run_failed_butlast:
  "snd (seq_run ms) = Inl e \<Longrightarrow> ms \<noteq> [] \<Longrightarrow> snd (last ms) = Inr () \<Longrightarrow>
   fst (seq_run ms) = fst (seq_run (butlast ms))"
proof (induction ms)
  case Nil
  then show ?case by simp
next
  case (Cons m ms)
  show ?case
  proof (cases "ms = []")
    case True
    with Cons.prems show ?thesis
      by (simp add: snd_bind_run)
  next
    case False
    with Cons show ?thesis
      by (auto simp: snd_bind_run fst_bind_run split: sum.splits)
  qed
qed

text \<open>The events of a block are events of its statements.\<close>

lemma events_seq_run:
  "(\<forall>m \<in> set ms. list_all P (fst m)) \<Longrightarrow> list_all P (fst (seq_run ms))"
  by (induction ms) (auto simp: fst_bind_run split: sum.splits)

lemma events_run_if: "(c \<Longrightarrow> list_all P (fst m)) \<Longrightarrow> list_all P (fst (run_if c m))"
  by (simp add: run_if_def)

text \<open>Blocks that throw nothing but \<open>ArgumentErr\<close>.\<close>

lemma only_ArgumentErrD:
  "only_ArgumentErr m \<Longrightarrow> snd m = Inl e \<Longrightarrow> \<exists>msg. e = ArgumentErr msg"
  by (cases e) (simp_all add: only_ArgumentErr_def)

lemma only_ArgumentErr_throw [simp]: "only_ArgumentErr (vw_throw (ArgumentErr s))"
  and only_ArgumentErr_ret [simp]: "only_ArgumentErr (ret x)"
  and only_ArgumentErr_emit [simp]: "only_ArgumentErr (emit ev)"
  by (simp_all add: only_ArgumentErr_def)

lemma only_ArgumentErr_run_if [simp]:
  "(c \<Longrightarrow> only_ArgumentErr m) \<Longrightarrow> only_ArgumentErr (run_if c m)"
  by (simp add: run_if_def)

lemma only_ArgumentErr_seq_run:
  "(\<forall>m \<in> set ms. only_ArgumentErr m) \<Longrightarrow> only_ArgumentErr (seq_run ms)"
  by (induction ms)
     (auto simp: only_ArgumentErr_def snd_bind_run split: sum.splits error.splits)

subsection \<open>Doubles\<close>

lemma d_add_NaN_right: "d_add a NaN = NaN"
  by (cases a) simp_all

lemma d_mul_self_nonneg:
  "d \<noteq> NaN \<Longrightarrow> d_mul d d = PosInf \<or> (\<exists>r. 0 \<le> r \<and> d_mul d d = Fin r)"
  by (cases d) auto

lemma d_add_nonneg:
  assumes "a = PosInf \<or> (\<exists>r. 0 \<le> r \<and> a = Fin r)"
    and "b = PosInf \<or> (\<exists>r. 0 \<le> r \<and> b = Fin r)"
  shows "d_add a b = PosInf \<or> (\<exists>r. 0 \<le> r \<and> d_add a b = Fin r)"
  using assms by auto

lemma d_sqrt_nonneg:
  "a = PosInf \<or> (\<exists>r. 0 \<le> r \<and> a = Fin r) \<Longrightarrow> d_sqrt a \<noteq> NaN"
  by auto

text \<open>The norm of a 2-vector is NaN exactly when one of its components is.\<close>

lemma isnan_norm_2: "isnan (norm_2 v) \<longleftrightarrow> isnan (idx2 v 0) \<or> isnan (idx2 v 1)"
proof (cases v)
  case (Pair x y)
  show ?thesis
  proof (cases "x = NaN \<or> y = NaN")
    case True
    then show ?thesis
      using Pair by (auto simp: isnan_def d_add_NaN_right)
  next
    case False
    then have "d_sqrt (d_add (d_mul x x) (d_mul y y)) \<noteq> NaN"
      by (intro d_sqrt_nonneg d_add_nonneg d_mul_self_nonneg) simp_all
    with False show ?thesis
      using Pair by (simp add: isnan_def)
  qed
qed

text \<open>A value that is not NaN and not at most zero is positive; one that is not NaN
  and not negative is at least zero.\<close>

lemma d_pos: "\<not> isnan d \<Longrightarrow> \<not> d_le d (Fin 0) \<Longrightarrow> d_lt (Fin 0) d"
  by (cases d) (auto simp: isnan_def d_le_def)

lemma d_nonneg: "\<not> isnan d \<Longrightarrow> \<not> d_lt d (Fin 0) \<Longrightarrow> d_le (Fin 0) d"
  by (cases d) (auto simp: isnan_def d_le_def)

subsection \<open>Validation\<close>

lemmas check_defs = jitter_all_or_none_check_def jitter_roll_pitch_yaw_check_def
  camera_list_jitter_check_def velocity_check_def horizontal_uncertainty_check_def
  jitter_frequency_check_def

text \<open>The counter \<open>ans\<close> is 0 when no jitter parameter is set and 5 when all are.\<close>

lemma ans_eq_0_iff:
  "ans opt = 0 \<longleftrightarrow>
     isnan (jitter_frequency opt) \<and> isnan (velocity opt) \<and>
     isnan (idx3 (horizontal_uncertainty opt) 0) \<and>
     isnan (idx3 (horizontal_uncertainty opt) 1) \<and>
     isnan (idx3 (horizontal_uncertainty opt) 2)"
  by (simp add: ans_def of_bool_def)

lemma ans_eq_5_iff:
  "ans opt = 5 \<longleftrightarrow>
     \<not> isnan (jitter_frequency opt) \<and> \<not> isnan (velocity opt) \<and>
     \<not> isnan (idx3 (horizontal_uncertainty opt) 0) \<and>
     \<not> isnan (idx3 (horizontal_uncertainty opt) 1) \<and>
     \<not> isnan (idx3 (horizontal_uncertainty opt) 2)"
  by (simp add: ans_def of_bool_def)

text \<open>The configurations that \<^verbatim>\<open>handle_arguments\<close> accepts: those that pass every
  check.\<close>

lemma handle_arguments_ok_iff:
  "snd (handle_arguments opt) = Inr () \<longleftrightarrow>
     dem_file opt \<noteq> '''' \<and> ortho_file opt \<noteq> '''' \<and> out_prefix opt \<noteq> '''' \<and>
     \<not> isnan (idx2 (image_size opt) 0) \<and> \<not> isnan (idx2 (image_size opt) 1) \<and>
     \<not> (camera_list opt \<noteq> '''' \<and> no_images opt) \<and>
     (camera_list opt = '''' \<longrightarrow>
        \<not> vec3_eq (first_opt opt) Vector3_zero \<and> \<not> vec3_eq (last_opt opt) Vector3_zero \<and>
        2 \<le> num_cameras opt \<and> \<not> isnan (focal_length opt) \<and>
        \<not> isnan (idx2 (optical_center opt) 0) \<and> \<not> isnan (idx2 (optical_center opt) 1) \<and>
        isnan (norm_2 (first_ground_pos opt)) = isnan (norm_2 (last_ground_pos opt)) \<and>
        (ans_rpy opt = 0 \<or> ans_rpy opt = 3)) \<and>
     (ans opt = 0 \<or> ans opt = 5) \<and>
     (ans opt = 0 \<or> have_roll_pitch_yaw opt) \<and>
     (camera_list opt = '''' \<or> ans opt = 0) \<and>
     \<not> d_le (velocity opt) (Fin 0) \<and>
     \<not> d_lt (idx3 (horizontal_uncertainty opt) 0) (Fin 0) \<and>
     \<not> d_lt (idx3 (horizontal_uncertainty opt) 1) (Fin 0) \<and>
     \<not> d_lt (idx3 (horizontal_uncertainty opt) 2) (Fin 0) \<and>
     \<not> d_le (jitter_frequency opt) (Fin 0)"
  unfolding handle_arguments_def check_defs
  by (simp add: seq_run_ok_iff snd_run_if del: seq_run.simps)

text \<open>Every exception of \<^verbatim>\<open>handle_arguments\<close> is an \<open>ArgumentErr\<close>.\<close>

lemma handle_arguments_only_ArgumentErr: "only_ArgumentErr (handle_arguments opt)"
  unfolding handle_arguments_def check_defs
  by (simp add: only_ArgumentErr_seq_run del: seq_run.simps)

lemma handle_arguments_rejects:
  assumes "snd (handle_arguments opt) \<noteq> Inr ()"
  shows "\<exists>msg. snd (handle_arguments opt) = Inl (ArgumentErr msg)"
proof (cases "snd (handle_arguments opt)")
  case (Inl e)
  with only_ArgumentErrD [OF handle_arguments_only_ArgumentErr Inl] show ?thesis
    by auto
next
  case (Inr u)
  with assms show ?thesis
    by simp
qed

text \<open>All that a rejected run has done is print the warning about the heights,
  which is only printed when no camera list is given; and \<^verbatim>\<open>main\<close> stops with
  the exception of \<^verbatim>\<open>handle_arguments\<close>.\<close>

lemma handle_arguments_failed_events:
  assumes "snd (handle_arguments opt) = Inl e"
  shows "list_all (\<lambda>ev. (\<exists>s. ev = Warning s) \<and> camera_list opt = '''')
           (fst (handle_arguments opt))"
  using assms unfolding handle_arguments_def check_defs
  by (subst seq_run_failed_butlast [where e = e])
     (simp_all add: events_seq_run events_run_if del: seq_run.simps)

lemma main_failed_validation:
  "snd (handle_arguments opt) = Inl e \<Longrightarrow> main lib opt = (fst (handle_arguments opt), Inl e)"
  unfolding main_def by (rule bind_run_failed)

subsection \<open>The examples\<close>

lemmas example_defs = example_options_def jitter_options_def default_options_def
  Vector3_zero_def isnan_def

text \<open>The example command line is accepted, with and without jitter, and its run
  goes through every stage.\<close>

lemma example_options_accepted:
  "handle_arguments example_options = ([CreateOutDir ''run/out''], Inr ())"
  by (simp add: handle_arguments_def check_defs example_defs ans_def ans_rpy_def
      have_roll_pitch_yaw_def d_le_def d_ne_def run_if_def bind_run_def ret_def emit_def
      vw_throw_def)

lemma jitter_options_accepted:
  "handle_arguments (jitter_options\<lparr>roll := Fin 0, pitch := Fin 10, yaw := Fin 0\<rparr>) =
     ([CreateOutDir ''run/out''], Inr ())"
  by (simp add: handle_arguments_def check_defs example_defs ans_def ans_rpy_def
      have_roll_pitch_yaw_def d_le_def d_ne_def run_if_def bind_run_def ret_def emit_def
      vw_throw_def)

lemma main_example_options:
  "main example_lib example_options =
     ([CreateOutDir ''run/out'', ReadGeorefImage ''dem.tif'', ReadGeorefImage ''ortho.tif'',
       CalcTrajectory, GenCameras, GenImages], Inr 0)"
  unfolding main_def example_options_accepted
  by (simp add: example_defs example_lib_def bind_run_def call_def ret_def run_if_def)

subsection \<open>The claims\<close>

text \<open>
  C1, as amended. With a camera list, it is the jitter parameters that are
  refused, not roll, pitch and yaw: if any of the five jitter parameters is set,
  validation throws an \<open>ArgumentErr\<close> and the run ends with it having done
  nothing; and whether validation accepts the command line does not depend on
  the values of roll, pitch and yaw.
\<close>

theorem camera_list_excludes_jitter:
  assumes "camera_list opt \<noteq> ''''"
  shows "(\<not> isnan (jitter_frequency opt) \<or> \<not> isnan (velocity opt) \<or>
          \<not> isnan (idx3 (horizontal_uncertainty opt) 0) \<or>
          \<not> isnan (idx3 (horizontal_uncertainty opt) 1) \<or>
          \<not> isnan (idx3 (horizontal_uncertainty opt) 2) \<longrightarrow>
          (\<exists>msg. handle_arguments opt = ([], Inl (ArgumentErr msg)) \<and>
                 main lib opt = ([], Inl (ArgumentErr msg)))) \<and>
         ((snd (handle_arguments (opt\<lparr>roll := r, pitch := p, yaw := y\<rparr>)) = Inr ()) =
          (snd (handle_arguments opt) = Inr ()))"
proof (intro conjI impI)
  assume "\<not> isnan (jitter_frequency opt) \<or> \<not> isnan (velocity opt) \<or>
          \<not> isnan (idx3 (horizontal_uncertainty opt) 0) \<or>
          \<not> isnan (idx3 (horizontal_uncertainty opt) 1) \<or>
          \<not> isnan (idx3 (horizontal_uncertainty opt) 2)"
  then have "ans opt \<noteq> 0"
    unfolding ans_eq_0_iff by blast
  with assms have "snd (handle_arguments opt) \<noteq> Inr ()"
    unfolding handle_arguments_ok_iff by blast
  then obtain msg where h: "snd (handle_arguments opt) = Inl (ArgumentErr msg)"
    using handle_arguments_rejects by blast
  from handle_arguments_failed_events [OF h] assms
  have "fst (handle_arguments opt) = []"
    by (cases "fst (handle_arguments opt)") simp_all
  with h have "handle_arguments opt = ([], Inl (ArgumentErr msg))"
    by (simp add: prod_eq_iff)
  moreover from this have "main lib opt = ([], Inl (ArgumentErr msg))"
    using main_failed_validation [OF h, of lib] by simp
  ultimately show "\<exists>msg. handle_arguments opt = ([], Inl (ArgumentErr msg)) \<and>
                 main lib opt = ([], Inl (ArgumentErr msg))"
    by blast
next
  have "ans (opt\<lparr>roll := r, pitch := p, yaw := y\<rparr>) = ans opt"
    by (simp add: ans_def)
  with assms
  show "(snd (handle_arguments (opt\<lparr>roll := r, pitch := p, yaw := y\<rparr>)) = Inr ()) =
          (snd (handle_arguments opt) = Inr ())"
    unfolding handle_arguments_ok_iff by auto
qed

text \<open>The example command line with a camera list and \<^verbatim>\<open>--velocity\<close>.\<close>

theorem camera_list_excludes_jitter_witness:
  "camera_list (example_options\<lparr>camera_list := ''cameras.txt'', velocity := Fin 7500\<rparr>) \<noteq> '''' \<and>
   \<not> isnan (velocity (example_options\<lparr>camera_list := ''cameras.txt'', velocity := Fin 7500\<rparr>)) \<and>
   (\<exists>msg. handle_arguments (example_options\<lparr>camera_list := ''cameras.txt'', velocity := Fin 7500\<rparr>) =
            ([], Inl (ArgumentErr msg)) \<and>
          main example_lib (example_options\<lparr>camera_list := ''cameras.txt'', velocity := Fin 7500\<rparr>) =
            ([], Inl (ArgumentErr msg)))"
  using camera_list_excludes_jitter
    [of "example_options\<lparr>camera_list := ''cameras.txt'', velocity := Fin 7500\<rparr>" example_lib]
  by (simp add: example_defs)

text \<open>
  C1 as stated fails: a command line with the required arguments, a camera list
  and roll, pitch and yaw is accepted, and validation goes on to create the
  output directory.
\<close>

theorem camera_list_with_roll_pitch_yaw_accepted:
  "camera_list (default_options
      \<lparr>dem_file := ''dem.tif'', ortho_file := ''ortho.tif'', out_prefix := ''run/out'',
       camera_list := ''cameras.txt'', image_size := (Fin 100, Fin 100),
       roll := Fin 10, pitch := Fin 0, yaw := Fin 0\<rparr>) \<noteq> '''' \<and>
   \<not> isnan (roll (default_options
      \<lparr>dem_file := ''dem.tif'', ortho_file := ''ortho.tif'', out_prefix := ''run/out'',
       camera_list := ''cameras.txt'', image_size := (Fin 100, Fin 100),
       roll := Fin 10, pitch := Fin 0, yaw := Fin 0\<rparr>)) \<and>
   handle_arguments (default_options
      \<lparr>dem_file := ''dem.tif'', ortho_file := ''ortho.tif'', out_prefix := ''run/out'',
       camera_list := ''cameras.txt'', image_size := (Fin 100, Fin 100),
       roll := Fin 10, pitch := Fin 0, yaw := Fin 0\<rparr>) =
     ([CreateOutDir ''run/out''], Inr ())"
  by (simp add: handle_arguments_def check_defs example_defs ans_def ans_rpy_def
      have_roll_pitch_yaw_def d_le_def d_ne_def run_if_def bind_run_def ret_def emit_def
      vw_throw_def)

text \<open>
  C2. If at least one of the five jitter parameters (jitter frequency,
  velocity, the three components of the horizontal uncertainty) is set and at
  least one is not, validation fails with an \<open>ArgumentErr\<close>. The
  all-or-none check itself (lines 160 to 162) passes exactly when all five are
  set or none is.
\<close>

theorem partial_jitter_rejected:
  "((\<not> isnan (jitter_frequency opt) \<or> \<not> isnan (velocity opt) \<or>
     \<not> isnan (idx3 (horizontal_uncertainty opt) 0) \<or>
     \<not> isnan (idx3 (horizontal_uncertainty opt) 1) \<or>
     \<not> isnan (idx3 (horizontal_uncertainty opt) 2)) \<and>
    (isnan (jitter_frequency opt) \<or> isnan (velocity opt) \<or>
     isnan (idx3 (horizontal_uncertainty opt) 0) \<or>
     isnan (idx3 (horizontal_uncertainty opt) 1) \<or>
     isnan (idx3 (horizontal_uncertainty opt) 2))
    \<longrightarrow> (\<exists>msg. snd (handle_arguments opt) = Inl (ArgumentErr msg))) \<and>
   (jitter_all_or_none_check opt = ret () \<longleftrightarrow>
      (\<not> isnan (jitter_frequency opt) \<and> \<not> isnan (velocity opt) \<and>
       \<not> isnan (idx3 (horizontal_uncertainty opt) 0) \<and>
       \<not> isnan (idx3 (horizontal_uncertainty opt) 1) \<and>
       \<not> isnan (idx3 (horizontal_uncertainty opt) 2)) \<or>
      (isnan (jitter_frequency opt) \<and> isnan (velocity opt) \<and>
       isnan (idx3 (horizontal_uncertainty opt) 0) \<and>
       isnan (idx3 (horizontal_uncertainty opt) 1) \<and>
       isnan (idx3 (horizontal_uncertainty opt) 2)))"
proof (intro conjI impI)
  assume "(\<not> isnan (jitter_frequency opt) \<or> \<not> isnan (velocity opt) \<or>
     \<not> isnan (idx3 (horizontal_uncertainty opt) 0) \<or>
     \<not> isnan (idx3 (horizontal_uncertainty opt) 1) \<or>
     \<not> isnan (idx3 (horizontal_uncertainty opt) 2)) \<and>
    (isnan (jitter_frequency opt) \<or> isnan (velocity opt) \<or>
     isnan (idx3 (horizontal_uncertainty opt) 0) \<or>
     isnan (idx3 (horizontal_uncertainty opt) 1) \<or>
     isnan (idx3 (horizontal_uncertainty opt) 2))"
  then have "ans opt \<noteq> 0" and "ans opt \<noteq> 5"
    unfolding ans_eq_0_iff ans_eq_5_iff by blast+
  then have "snd (handle_arguments opt) \<noteq> Inr ()"
    unfolding handle_arguments_ok_iff by blast
  then show "\<exists>msg. snd (handle_arguments opt) = Inl (ArgumentErr msg)"
    by (rule handle_arguments_rejects)
next
  have "jitter_all_or_none_check opt = ret () \<longleftrightarrow> ans opt = 5 \<or> ans opt = 0"
    by (auto simp: jitter_all_or_none_check_def run_if_def vw_throw_def ret_def)
  then show "jitter_all_or_none_check opt = ret () \<longleftrightarrow>
      (\<not> isnan (jitter_frequency opt) \<and> \<not> isnan (velocity opt) \<and>
       \<not> isnan (idx3 (horizontal_uncertainty opt) 0) \<and>
       \<not> isnan (idx3 (horizontal_uncertainty opt) 1) \<and>
       \<not> isnan (idx3 (horizontal_uncertainty opt) 2)) \<or>
      (isnan (jitter_frequency opt) \<and> isnan (velocity opt) \<and>
       isnan (idx3 (horizontal_uncertainty opt) 0) \<and>
       isnan (idx3 (horizontal_uncertainty opt) 1) \<and>
       isnan (idx3 (horizontal_uncertainty opt) 2))"
    unfolding ans_eq_0_iff ans_eq_5_iff .
qed

text \<open>
  The example command line with only \<^verbatim>\<open>--jitter-frequency\<close> added is rejected;
  with no jitter parameter at all it passes the check.
\<close>

theorem partial_jitter_rejected_witness:
  "(\<not> isnan (jitter_frequency (example_options\<lparr>jitter_frequency := Fin 5\<rparr>)) \<and>
    isnan (velocity (example_options\<lparr>jitter_frequency := Fin 5\<rparr>))) \<and>
   (\<exists>msg. snd (handle_arguments (example_options\<lparr>jitter_frequency := Fin 5\<rparr>)) =
      Inl (ArgumentErr msg)) \<and>
   jitter_all_or_none_check example_options = ret ()"
  using partial_jitter_rejected [of "example_options\<lparr>jitter_frequency := Fin 5\<rparr>"]
    partial_jitter_rejected [of example_options]
  by (simp add: example_options_def default_options_def isnan_def)

text \<open>
  C3. When all five jitter parameters are set, validation requires roll, pitch
  and yaw as well: if one of the three is not set, validation fails with an
  \<open>ArgumentErr\<close>; every accepted configuration has all three; and the check of
  lines 164 to 167 passes exactly when all three are set.
\<close>

theorem jitter_requires_roll_pitch_yaw:
  assumes "\<not> isnan (jitter_frequency opt)" and "\<not> isnan (velocity opt)"
    and "\<not> isnan (idx3 (horizontal_uncertainty opt) 0)"
    and "\<not> isnan (idx3 (horizontal_uncertainty opt) 1)"
    and "\<not> isnan (idx3 (horizontal_uncertainty opt) 2)"
  shows "(isnan (roll opt) \<or> isnan (pitch opt) \<or> isnan (yaw opt) \<longrightarrow>
           (\<exists>msg. snd (handle_arguments opt) = Inl (ArgumentErr msg))) \<and>
         (snd (handle_arguments opt) = Inr () \<longrightarrow>
           \<not> isnan (roll opt) \<and> \<not> isnan (pitch opt) \<and> \<not> isnan (yaw opt)) \<and>
         (jitter_roll_pitch_yaw_check opt = ret () \<longleftrightarrow>
           \<not> isnan (roll opt) \<and> \<not> isnan (pitch opt) \<and> \<not> isnan (yaw opt))"
proof -
  from assms have set: "ans opt \<noteq> 0"
    by (simp add: ans_eq_0_iff)
  have accepted: "\<not> isnan (roll opt) \<and> \<not> isnan (pitch opt) \<and> \<not> isnan (yaw opt)"
    if "snd (handle_arguments opt) = Inr ()"
    using that set unfolding handle_arguments_ok_iff have_roll_pitch_yaw_def by blast
  have rejected: "\<exists>msg. snd (handle_arguments opt) = Inl (ArgumentErr msg)"
    if "isnan (roll opt) \<or> isnan (pitch opt) \<or> isnan (yaw opt)"
    using that accepted by (intro handle_arguments_rejects) blast
  have check: "jitter_roll_pitch_yaw_check opt = ret () \<longleftrightarrow>
           \<not> isnan (roll opt) \<and> \<not> isnan (pitch opt) \<and> \<not> isnan (yaw opt)"
    using set
    by (auto simp: jitter_roll_pitch_yaw_check_def have_roll_pitch_yaw_def run_if_def
        vw_throw_def ret_def)
  from accepted rejected check show ?thesis
    by blast
qed

text \<open>The example command line with the jitter parameters and no roll, pitch or yaw.\<close>

theorem jitter_requires_roll_pitch_yaw_witness:
  "(\<not> isnan (jitter_frequency jitter_options) \<and> \<not> isnan (velocity jitter_options) \<and>
    \<not> isnan (idx3 (horizontal_uncertainty jitter_options) 0) \<and>
    \<not> isnan (idx3 (horizontal_uncertainty jitter_options) 1) \<and>
    \<not> isnan (idx3 (horizontal_uncertainty jitter_options) 2)) \<and>
   isnan (roll jitter_options) \<and>
   (\<exists>msg. snd (handle_arguments jitter_options) = Inl (ArgumentErr msg)) \<and>
   jitter_roll_pitch_yaw_check jitter_options \<noteq> ret ()"
  using jitter_requires_roll_pitch_yaw [of jitter_options]
  by (simp add: example_defs)

text \<open>
  C4, as amended. Jitter depends on roll, pitch and yaw: a configuration with
  the five jitter parameters set and no roll, pitch or yaw given is not valid.
  Validation rejects it with an \<open>ArgumentErr\<close> and the run ends with the same
  exception, its only events being warnings, so no trajectory is computed and
  no orientation is derived for it. When the checks before line 160 pass
  (required arguments, camera list against \<^verbatim>\<open>--no-images\<close> and, without a
  camera list, positions, camera count, focal length, optical center and ground
  positions), the exception is the one of lines 164 to 167, "Modelling jitter
  requires specifying --roll, --pitch, and --yaw."
\<close>

theorem jitter_without_roll_pitch_yaw_stops_run:
  assumes "\<not> isnan (jitter_frequency opt)" and "\<not> isnan (velocity opt)"
    and "\<not> isnan (idx3 (horizontal_uncertainty opt) 0)"
    and "\<not> isnan (idx3 (horizontal_uncertainty opt) 1)"
    and "\<not> isnan (idx3 (horizontal_uncertainty opt) 2)"
    and "isnan (roll opt)" and "isnan (pitch opt)" and "isnan (yaw opt)"
  shows "(\<exists>msg. snd (handle_arguments opt) = Inl (ArgumentErr msg) \<and>
                snd (main lib opt) = Inl (ArgumentErr msg)) \<and>
         (\<forall>ev \<in> set (fst (main lib opt)). \<exists>s. ev = Warning s) \<and>
         (dem_file opt \<noteq> '''' \<and> ortho_file opt \<noteq> '''' \<and> out_prefix opt \<noteq> '''' \<and>
          \<not> isnan (idx2 (image_size opt) 0) \<and> \<not> isnan (idx2 (image_size opt) 1) \<and>
          \<not> (camera_list opt \<noteq> '''' \<and> no_images opt) \<and>
          (camera_list opt = '''' \<longrightarrow>
             \<not> vec3_eq (first_opt opt) Vector3_zero \<and> \<not> vec3_eq (last_opt opt) Vector3_zero \<and>
             2 \<le> num_cameras opt \<and> \<not> isnan (focal_length opt) \<and>
             \<not> isnan (idx2 (optical_center opt) 0) \<and> \<not> isnan (idx2 (optical_center opt) 1) \<and>
             isnan (norm_2 (first_ground_pos opt)) = isnan (norm_2 (last_ground_pos opt)))
          \<longrightarrow>
          snd (handle_arguments opt) = Inl (ArgumentErr
            (''Modelling jitter requires specifying --roll, --pitch, and --yaw.'' @ nl)) \<and>
          snd (main lib opt) = Inl (ArgumentErr
            (''Modelling jitter requires specifying --roll, --pitch, and --yaw.'' @ nl)))"
proof (intro conjI impI)
  from assms have set: "ans opt = 5" and rpy: "\<not> have_roll_pitch_yaw opt"
    by (auto simp: ans_eq_5_iff have_roll_pitch_yaw_def)
  then have "snd (handle_arguments opt) \<noteq> Inr ()"
    unfolding handle_arguments_ok_iff by simp
  then obtain msg where h: "snd (handle_arguments opt) = Inl (ArgumentErr msg)"
    using handle_arguments_rejects by blast
  then have m: "main lib opt = (fst (handle_arguments opt), Inl (ArgumentErr msg))"
    by (rule main_failed_validation)
  with h show "\<exists>msg. snd (handle_arguments opt) = Inl (ArgumentErr msg) \<and>
                snd (main lib opt) = Inl (ArgumentErr msg)"
    by simp
  from handle_arguments_failed_events [OF h] m
  show "\<forall>ev \<in> set (fst (main lib opt)). \<exists>s. ev = Warning s"
    by (simp add: list_all_iff)
  assume before: "dem_file opt \<noteq> '''' \<and> ortho_file opt \<noteq> '''' \<and> out_prefix opt \<noteq> '''' \<and>
          \<not> isnan (idx2 (image_size opt) 0) \<and> \<not> isnan (idx2 (image_size opt) 1) \<and>
          \<not> (camera_list opt \<noteq> '''' \<and> no_images opt) \<and>
          (camera_list opt = '''' \<longrightarrow>
             \<not> vec3_eq (first_opt opt) Vector3_zero \<and> \<not> vec3_eq (last_opt opt) Vector3_zero \<and>
             2 \<le> num_cameras opt \<and> \<not> isnan (focal_length opt) \<and>
             \<not> isnan (idx2 (optical_center opt) 0) \<and> \<not> isnan (idx2 (optical_center opt) 1) \<and>
             isnan (norm_2 (first_ground_pos opt)) = isnan (norm_2 (last_ground_pos opt)))"
  from assms have three: "ans_rpy opt = 3"
    by (simp add: ans_rpy_def)
  show thrown: "snd (handle_arguments opt) = Inl (ArgumentErr
            (''Modelling jitter requires specifying --roll, --pitch, and --yaw.'' @ nl))"
    unfolding handle_arguments_def jitter_all_or_none_check_def jitter_roll_pitch_yaw_check_def
    using before set rpy three
    by (cases "camera_list opt = ''''")
       (simp_all add: snd_seq_run_Cons snd_run_if del: seq_run.simps(2))
  then show "snd (main lib opt) = Inl (ArgumentErr
            (''Modelling jitter requires specifying --roll, --pitch, and --yaw.'' @ nl))"
    using main_failed_validation [of opt _ lib] by simp
qed

text \<open>The example command line with the jitter parameters and no roll, pitch or yaw,
  run to its end: the exception is the one of lines 164 to 167.\<close>

theorem jitter_without_roll_pitch_yaw_stops_run_witness:
  "(\<not> isnan (jitter_frequency jitter_options) \<and> \<not> isnan (velocity jitter_options) \<and>
    \<not> isnan (idx3 (horizontal_uncertainty jitter_options) 0) \<and>
    \<not> isnan (idx3 (horizontal_uncertainty jitter_options) 1) \<and>
    \<not> isnan (idx3 (horizontal_uncertainty jitter_options) 2) \<and>
    isnan (roll jitter_options) \<and> isnan (pitch jitter_options) \<and> isnan (yaw jitter_options)) \<and>
   snd (handle_arguments jitter_options) = Inl (ArgumentErr
     (''Modelling jitter requires specifying --roll, --pitch, and --yaw.'' @ nl)) \<and>
   snd (main example_lib jitter_options) = Inl (ArgumentErr
     (''Modelling jitter requires specifying --roll, --pitch, and --yaw.'' @ nl)) \<and>
   CalcTrajectory \<notin> set (fst (main example_lib jitter_options)) \<and>
   GenCameras \<notin> set (fst (main example_lib jitter_options))"
  using jitter_without_roll_pitch_yaw_stops_run [of jitter_options example_lib]
  by (auto simp: example_defs)

text \<open>
  C4 as stated fails: a complete command line with the five jitter parameters
  set and no roll, pitch or yaw is not valid; validation rejects it.
\<close>

theorem jitter_without_roll_pitch_yaw_rejected:
  "handle_arguments (default_options
      \<lparr>dem_file := ''dem.tif'', ortho_file := ''ortho.tif'', out_prefix := ''run/out'',
       first_opt := (Fin 0, Fin 0, Fin 500), last_opt := (Fin 100, Fin 0, Fin 500),
       num_cameras := 2, focal_length := Fin 1000, optical_center := (Fin 50, Fin 50),
       image_size := (Fin 100, Fin 100), velocity := Fin 7500,
       horizontal_uncertainty := (Fin 0, Fin 2, Fin 0), jitter_frequency := Fin 5\<rparr>) =
     ([], Inl (ArgumentErr
        (''Modelling jitter requires specifying --roll, --pitch, and --yaw.'' @ nl)))"
  by (simp add: handle_arguments_def check_defs example_defs ans_def ans_rpy_def
      have_roll_pitch_yaw_def d_le_def d_ne_def run_if_def bind_run_def ret_def emit_def
      vw_throw_def)

text \<open>
  C5. For every model and every pixel, asking the CSM wrapper for the camera
  pose raises the not-implemented error; no quaternion is ever returned.
\<close>

theorem camera_pose_not_implemented:
  "camera_pose m pix = Inl (NoImplErr ''CsmModel: Cannot retrieve camera_pose!'')
   \<and> camera_pose m pix \<noteq> Inr q"
  by (simp add: camera_pose_def)

text \<open>
  C6. The default precision \<^verbatim>\<open>DEFAULT_CSM_DESIRED_PRECISISON\<close> is 1e-8 and a new
  model is configured with it. A caller can select a looser precision (a larger
  tolerance \<open>p\<close>) through \<^verbatim>\<open>setDesiredPrecision\<close>: the model then has precision
  \<open>p\<close>, and its sensor-model handle, datum axes and sun position are the ones
  it had, so nothing is constructed again.
\<close>

theorem desired_precision_default_and_setter:
  "DEFAULT_CSM_DESIRED_PRECISISON = Fin (1 / 10 ^ 8) \<and>
   m_desired_precision (CsmModel_new gm a b sun) = Fin (1 / 10 ^ 8) \<and>
   (d_lt DEFAULT_CSM_DESIRED_PRECISISON p \<longrightarrow>
      m_desired_precision (setDesiredPrecision p m) = p \<and>
      m_gm_model (setDesiredPrecision p m) = m_gm_model m \<and>
      m_semi_major_axis (setDesiredPrecision p m) = m_semi_major_axis m \<and>
      m_semi_minor_axis (setDesiredPrecision p m) = m_semi_minor_axis m \<and>
      m_sun_position (setDesiredPrecision p m) = m_sun_position m)"
  by (simp add: CsmModel_new_def DEFAULT_CSM_DESIRED_PRECISISON_def setDesiredPrecision_def)

text \<open>
  The setter at a model built with the default precision and the looser
  precision 1e-5.
\<close>

theorem desired_precision_default_and_setter_witness:
  "d_lt DEFAULT_CSM_DESIRED_PRECISISON (Fin (1 / 10 ^ 5)) \<and>
   m_desired_precision
     (setDesiredPrecision (Fin (1 / 10 ^ 5))
        (CsmModel_new (Some 0) (Fin 6378137) (Fin 6356752) (Fin 0, Fin 0, Fin 0))) =
     Fin (1 / 10 ^ 5) \<and>
   m_gm_model
     (setDesiredPrecision (Fin (1 / 10 ^ 5))
        (CsmModel_new (Some 0) (Fin 6378137) (Fin 6356752) (Fin 0, Fin 0, Fin 0))) = Some 0"
  using desired_precision_default_and_setter
    [of "Some 0" "Fin 6378137" "Fin 6356752" "(Fin 0, Fin 0, Fin 0)" "Fin (1 / 10 ^ 5)"
        "CsmModel_new (Some 0) (Fin 6378137) (Fin 6356752) (Fin 0, Fin 0, Fin 0)"]
  by (simp add: DEFAULT_CSM_DESIRED_PRECISISON_def CsmModel_new_def)

text \<open>
  C7. Without a camera list, every accepted configuration has at least 2
  cameras; with fewer than 2, validation and the whole run end with an
  \<open>ArgumentErr\<close>, and the only events of the run are warnings: no camera has
  been read or generated.
\<close>

theorem at_least_two_cameras:
  assumes "camera_list opt = ''''"
  shows "(snd (handle_arguments opt) = Inr () \<longrightarrow> 2 \<le> num_cameras opt) \<and>
         (num_cameras opt < 2 \<longrightarrow>
            (\<exists>msg. snd (handle_arguments opt) = Inl (ArgumentErr msg) \<and>
                   snd (main lib opt) = Inl (ArgumentErr msg)) \<and>
            (\<forall>ev \<in> set (fst (main lib opt)). \<exists>s. ev = Warning s))"
proof (intro conjI impI)
  assume "snd (handle_arguments opt) = Inr ()"
  with assms show "2 \<le> num_cameras opt"
    unfolding handle_arguments_ok_iff by blast
next
  assume few: "num_cameras opt < 2"
  with assms have "snd (handle_arguments opt) \<noteq> Inr ()"
    unfolding handle_arguments_ok_iff by simp
  then obtain msg where h: "snd (handle_arguments opt) = Inl (ArgumentErr msg)"
    using handle_arguments_rejects by blast
  then have m: "main lib opt = (fst (handle_arguments opt), Inl (ArgumentErr msg))"
    by (rule main_failed_validation)
  with h show "\<exists>msg. snd (handle_arguments opt) = Inl (ArgumentErr msg) \<and>
                     snd (main lib opt) = Inl (ArgumentErr msg)"
    by simp
  from handle_arguments_failed_events [OF h] m
  show "\<forall>ev \<in> set (fst (main lib opt)). \<exists>s. ev = Warning s"
    by (simp add: list_all_iff)
qed

text \<open>The example command line, accepted with 2 cameras and rejected with 1.\<close>

theorem at_least_two_cameras_witness:
  "camera_list example_options = '''' \<and>
   snd (handle_arguments example_options) = Inr () \<and> 2 \<le> num_cameras example_options \<and>
   camera_list (example_options\<lparr>num_cameras := 1\<rparr>) = '''' \<and>
   num_cameras (example_options\<lparr>num_cameras := 1\<rparr>) < 2 \<and>
   (\<exists>msg. snd (handle_arguments (example_options\<lparr>num_cameras := 1\<rparr>)) = Inl (ArgumentErr msg) \<and>
          snd (main example_lib (example_options\<lparr>num_cameras := 1\<rparr>)) = Inl (ArgumentErr msg)) \<and>
   ReadCameras \<notin> set (fst (main example_lib (example_options\<lparr>num_cameras := 1\<rparr>))) \<and>
   GenCameras \<notin> set (fst (main example_lib (example_options\<lparr>num_cameras := 1\<rparr>)))"
  using at_least_two_cameras [of example_options example_lib]
    at_least_two_cameras [of "example_options\<lparr>num_cameras := 1\<rparr>" example_lib]
    example_options_accepted
  by (auto simp: example_defs)

text \<open>
  C8. When the DEM, the orthoimage, the output prefix or the image size is
  missing, \<^verbatim>\<open>handle_arguments\<close> throws an \<open>ArgumentErr\<close> having done nothing,
  and so does the whole run: its trace is empty, so neither the DEM nor the
  orthoimage has been read and no trajectory, camera or image has been produced.
\<close>

theorem missing_required_argument_rejected:
  assumes "dem_file opt = '''' \<or> ortho_file opt = '''' \<or> out_prefix opt = '''' \<or>
           isnan (idx2 (image_size opt) 0) \<or> isnan (idx2 (image_size opt) 1)"
  shows "\<exists>msg. handle_arguments opt = ([], Inl (ArgumentErr msg)) \<and>
               main lib opt = ([], Inl (ArgumentErr msg))"
proof -
  have "\<exists>msg. handle_arguments opt = ([], Inl (ArgumentErr msg))"
    unfolding handle_arguments_def seq_run_throw_if
    using assms by (auto simp: vw_throw_def simp del: seq_run.simps)
  then obtain msg where h: "handle_arguments opt = ([], Inl (ArgumentErr msg))"
    by blast
  then have "main lib opt = ([], Inl (ArgumentErr msg))"
    using main_failed_validation [of opt "ArgumentErr msg" lib] by simp
  with h show ?thesis
    by blast
qed

text \<open>The example command line without \<^verbatim>\<open>--image-size\<close>.\<close>

theorem missing_required_argument_rejected_witness:
  "(dem_file (example_options\<lparr>image_size := (NaN, NaN)\<rparr>) = '''' \<or>
    ortho_file (example_options\<lparr>image_size := (NaN, NaN)\<rparr>) = '''' \<or>
    out_prefix (example_options\<lparr>image_size := (NaN, NaN)\<rparr>) = '''' \<or>
    isnan (idx2 (image_size (example_options\<lparr>image_size := (NaN, NaN)\<rparr>)) 0) \<or>
    isnan (idx2 (image_size (example_options\<lparr>image_size := (NaN, NaN)\<rparr>)) 1)) \<and>
   (\<exists>msg. handle_arguments (example_options\<lparr>image_size := (NaN, NaN)\<rparr>) = ([], Inl (ArgumentErr msg)) \<and>
          main example_lib (example_options\<lparr>image_size := (NaN, NaN)\<rparr>) = ([], Inl (ArgumentErr msg)))"
  using missing_required_argument_rejected
    [of "example_options\<lparr>image_size := (NaN, NaN)\<rparr>" example_lib]
  by (simp add: example_options_def default_options_def isnan_def)

text \<open>
  C9. Without a camera list, a first or last camera position equal to the zero
  vector is rejected with an \<open>ArgumentErr\<close>; when the required arguments are
  present the exception is the one about unspecified positions, thrown before
  anything else has happened. The zero vector is also the value of both options
  when they are not given, so the two cases cannot be told apart.
\<close>

theorem zero_position_rejected:
  assumes "camera_list opt = ''''"
    and "first_opt opt = Vector3_zero \<or> last_opt opt = Vector3_zero"
  shows "(\<exists>msg. snd (handle_arguments opt) = Inl (ArgumentErr msg)) \<and>
         (dem_file opt \<noteq> '''' \<and> ortho_file opt \<noteq> '''' \<and> out_prefix opt \<noteq> '''' \<and>
          \<not> isnan (idx2 (image_size opt) 0) \<and> \<not> isnan (idx2 (image_size opt) 1) \<longrightarrow>
          handle_arguments opt =
            ([], Inl (ArgumentErr (''The first and last camera positions must be '' @
               ''specified.'' @ nl)))) \<and>
         first_opt default_options = Vector3_zero \<and> last_opt default_options = Vector3_zero"
proof -
  have zero: "vec3_eq Vector3_zero Vector3_zero"
    by (simp add: Vector3_zero_def)
  with assms have c: "vec3_eq (first_opt opt) Vector3_zero \<or> vec3_eq (last_opt opt) Vector3_zero"
    by auto
  with assms(1) have "snd (handle_arguments opt) \<noteq> Inr ()"
    unfolding handle_arguments_ok_iff by blast
  then have 1: "\<exists>msg. snd (handle_arguments opt) = Inl (ArgumentErr msg)"
    by (rule handle_arguments_rejects)
  have 2: "handle_arguments opt =
            ([], Inl (ArgumentErr (''The first and last camera positions must be '' @
               ''specified.'' @ nl)))"
    if "dem_file opt \<noteq> '''' \<and> ortho_file opt \<noteq> '''' \<and> out_prefix opt \<noteq> '''' \<and>
          \<not> isnan (idx2 (image_size opt) 0) \<and> \<not> isnan (idx2 (image_size opt) 1)"
    unfolding handle_arguments_def seq_run_throw_if
    using that assms(1) c
    by (simp add: seq_run_throw_if seq_run_thrown run_if_def vw_throw_def del: seq_run.simps)
  from 1 2 show ?thesis
    by (simp add: default_options_def)
qed

text \<open>The example command line with \<^verbatim>\<open>--first\<close> given as 0 0 0.\<close>

theorem zero_position_rejected_witness:
  "camera_list (example_options\<lparr>first_opt := (Fin 0, Fin 0, Fin 0)\<rparr>) = '''' \<and>
   first_opt (example_options\<lparr>first_opt := (Fin 0, Fin 0, Fin 0)\<rparr>) = Vector3_zero \<and>
   handle_arguments (example_options\<lparr>first_opt := (Fin 0, Fin 0, Fin 0)\<rparr>) =
     ([], Inl (ArgumentErr (''The first and last camera positions must be '' @
        ''specified.'' @ nl)))"
  using zero_position_rejected [of "example_options\<lparr>first_opt := (Fin 0, Fin 0, Fin 0)\<rparr>"]
  by (simp add: example_defs)

text \<open>
  C10. A velocity or a jitter frequency that is at most zero, or a negative
  component of the horizontal uncertainty, makes validation fail with an
  \<open>ArgumentErr\<close>. Hence in every accepted configuration whose jitter parameters
  are set, velocity and jitter frequency are strictly positive and the three
  components of the horizontal uncertainty are at least zero. When the five
  parameters are not set (NaN), the three numeric checks of lines 173 to 181
  pass.
\<close>

theorem jitter_values_checked:
  "(d_le (velocity opt) (Fin 0) \<or> d_le (jitter_frequency opt) (Fin 0) \<or>
    d_lt (idx3 (horizontal_uncertainty opt) 0) (Fin 0) \<or>
    d_lt (idx3 (horizontal_uncertainty opt) 1) (Fin 0) \<or>
    d_lt (idx3 (horizontal_uncertainty opt) 2) (Fin 0)
    \<longrightarrow> (\<exists>msg. snd (handle_arguments opt) = Inl (ArgumentErr msg))) \<and>
   (snd (handle_arguments opt) = Inr () \<and>
    \<not> isnan (jitter_frequency opt) \<and> \<not> isnan (velocity opt) \<and>
    \<not> isnan (idx3 (horizontal_uncertainty opt) 0) \<and>
    \<not> isnan (idx3 (horizontal_uncertainty opt) 1) \<and>
    \<not> isnan (idx3 (horizontal_uncertainty opt) 2)
    \<longrightarrow> d_lt (Fin 0) (velocity opt) \<and> d_lt (Fin 0) (jitter_frequency opt) \<and>
         d_le (Fin 0) (idx3 (horizontal_uncertainty opt) 0) \<and>
         d_le (Fin 0) (idx3 (horizontal_uncertainty opt) 1) \<and>
         d_le (Fin 0) (idx3 (horizontal_uncertainty opt) 2)) \<and>
   (isnan (jitter_frequency opt) \<and> isnan (velocity opt) \<and>
    isnan (idx3 (horizontal_uncertainty opt) 0) \<and>
    isnan (idx3 (horizontal_uncertainty opt) 1) \<and>
    isnan (idx3 (horizontal_uncertainty opt) 2)
    \<longrightarrow> velocity_check opt = ret () \<and> horizontal_uncertainty_check opt = ret () \<and>
         jitter_frequency_check opt = ret ())"
proof (intro conjI impI)
  assume "d_le (velocity opt) (Fin 0) \<or> d_le (jitter_frequency opt) (Fin 0) \<or>
    d_lt (idx3 (horizontal_uncertainty opt) 0) (Fin 0) \<or>
    d_lt (idx3 (horizontal_uncertainty opt) 1) (Fin 0) \<or>
    d_lt (idx3 (horizontal_uncertainty opt) 2) (Fin 0)"
  then have "snd (handle_arguments opt) \<noteq> Inr ()"
    unfolding handle_arguments_ok_iff by blast
  then show "\<exists>msg. snd (handle_arguments opt) = Inl (ArgumentErr msg)"
    by (rule handle_arguments_rejects)
next
  assume a: "snd (handle_arguments opt) = Inr () \<and>
    \<not> isnan (jitter_frequency opt) \<and> \<not> isnan (velocity opt) \<and>
    \<not> isnan (idx3 (horizontal_uncertainty opt) 0) \<and>
    \<not> isnan (idx3 (horizontal_uncertainty opt) 1) \<and>
    \<not> isnan (idx3 (horizontal_uncertainty opt) 2)"
  then have ok: "\<not> d_le (velocity opt) (Fin 0)" "\<not> d_le (jitter_frequency opt) (Fin 0)"
    "\<not> d_lt (idx3 (horizontal_uncertainty opt) 0) (Fin 0)"
    "\<not> d_lt (idx3 (horizontal_uncertainty opt) 1) (Fin 0)"
    "\<not> d_lt (idx3 (horizontal_uncertainty opt) 2) (Fin 0)"
    unfolding handle_arguments_ok_iff by blast+
  with a show "d_lt (Fin 0) (velocity opt)" "d_lt (Fin 0) (jitter_frequency opt)"
    "d_le (Fin 0) (idx3 (horizontal_uncertainty opt) 0)"
    "d_le (Fin 0) (idx3 (horizontal_uncertainty opt) 1)"
    "d_le (Fin 0) (idx3 (horizontal_uncertainty opt) 2)"
    by (simp_all add: d_pos d_nonneg)
next
  assume "isnan (jitter_frequency opt) \<and> isnan (velocity opt) \<and>
    isnan (idx3 (horizontal_uncertainty opt) 0) \<and>
    isnan (idx3 (horizontal_uncertainty opt) 1) \<and>
    isnan (idx3 (horizontal_uncertainty opt) 2)"
  then show "velocity_check opt = ret ()" "horizontal_uncertainty_check opt = ret ()"
    "jitter_frequency_check opt = ret ()"
    by (simp_all add: velocity_check_def horizontal_uncertainty_check_def
        jitter_frequency_check_def run_if_def isnan_def d_le_def)
qed

text \<open>
  A zero velocity is rejected; the example with jitter parameters, roll, pitch
  and yaw is accepted and its velocity is positive; the example without jitter
  parameters passes the three checks.
\<close>

theorem jitter_values_checked_witness:
  "d_le (velocity (jitter_options\<lparr>velocity := Fin 0\<rparr>)) (Fin 0) \<and>
   (\<exists>msg. snd (handle_arguments (jitter_options\<lparr>velocity := Fin 0\<rparr>)) = Inl (ArgumentErr msg)) \<and>
   snd (handle_arguments (jitter_options\<lparr>roll := Fin 0, pitch := Fin 10, yaw := Fin 0\<rparr>)) = Inr () \<and>
   d_lt (Fin 0) (velocity (jitter_options\<lparr>roll := Fin 0, pitch := Fin 10, yaw := Fin 0\<rparr>)) \<and>
   isnan (velocity example_options) \<and>
   velocity_check example_options = ret () \<and>
   horizontal_uncertainty_check example_options = ret () \<and>
   jitter_frequency_check example_options = ret ()"
  using jitter_values_checked [of "jitter_options\<lparr>velocity := Fin 0\<rparr>"]
    jitter_values_checked [of "jitter_options\<lparr>roll := Fin 0, pitch := Fin 10, yaw := Fin 0\<rparr>"]
    jitter_values_checked [of example_options]
    jitter_options_accepted
  by (simp add: example_defs d_le_def)

end
